theory Spec2Isabelle
  imports Main
begin

section \<open>Column types of the store\<close>

text \<open>
  The schema of \<^verbatim>\<open>database/init.ts\<close> types its columns \<^verbatim>\<open>UUID\<close>, \<^verbatim>\<open>INT\<close>, \<^verbatim>\<open>VARCHAR(50)\<close>,
  \<^verbatim>\<open>TEXT\<close>, \<^verbatim>\<open>TIMESTAMP\<close> and \<^verbatim>\<open>JSONB\<close>. A statement whose parameter is outside its
  column's type is refused by the store with an error of class 22 (data exception),
  whether or not a row matches it. A uuid is kept as its canonical text, a \<^verbatim>\<open>Date\<close> or
  \<^verbatim>\<open>TIMESTAMP\<close> as a number, JSON as its text (taken to be text the store accepts). A
  character is one element of a string.
\<close>

type_synonym uuid = string
type_synonym timestamp = nat

text \<open>
  The store reads a uuid as 32 hexadecimal digits in either case, with an optional hyphen
  after any group of four digits, optionally in braces; it writes the lower-case digits
  with hyphens after 8, 12, 16 and 20 of them.
\<close>

definition is_hex :: "char \<Rightarrow> bool" where
  "is_hex c \<longleftrightarrow> c \<in> set ''0123456789abcdefABCDEF''"

definition lower_hex :: "char \<Rightarrow> char" where
  "lower_hex c =
     (if c = CHR ''A'' then CHR ''a'' else if c = CHR ''B'' then CHR ''b''
      else if c = CHR ''C'' then CHR ''c'' else if c = CHR ''D'' then CHR ''d''
      else if c = CHR ''E'' then CHR ''e'' else if c = CHR ''F'' then CHR ''f'' else c)"

text \<open>
  \<open>uuid_bytes n src\<close> reads the last \<open>n\<close> of the 16 bytes, two digits each, and returns
  their digits and what follows them. A hyphen is skipped after a byte of odd index that
  is not the last one.
\<close>

fun uuid_bytes :: "nat \<Rightarrow> string \<Rightarrow> (string \<times> string) option" where
  "uuid_bytes 0 src = Some ([], src)"
| "uuid_bytes (Suc n) (a # b # rest) =
     (if is_hex a \<and> is_hex b then
        (case uuid_bytes n
                (if even n \<and> 0 < n \<and> take 1 rest = ''-'' then drop 1 rest else rest) of
           None \<Rightarrow> None
         | Some (ds, r) \<Rightarrow> Some (lower_hex a # lower_hex b # ds, r))
      else None)"
| "uuid_bytes (Suc n) src = None"

definition uuid_in :: "string \<Rightarrow> uuid option" where
  "uuid_in src =
     (case uuid_bytes 16 (if take 1 src = ''{'' then drop 1 src else src) of
        None \<Rightarrow> None
      | Some (ds, r) \<Rightarrow>
          if r = (if take 1 src = ''{'' then ''}'' else []) then
            Some (take 8 ds @ ''-'' @ take 4 (drop 8 ds) @ ''-'' @ take 4 (drop 12 ds) @ ''-'' @
                  take 4 (drop 16 ds) @ ''-'' @ drop 20 ds)
          else None)"

text \<open>The uuid a text denotes; the text itself where it denotes none.\<close>

definition canonical :: "string \<Rightarrow> uuid" where
  "canonical src = (case uuid_in src of None \<Rightarrow> src | Some k \<Rightarrow> k)"

definition int4_in :: "int \<Rightarrow> bool" where
  "int4_in v \<longleftrightarrow> - 2147483648 \<le> v \<and> v \<le> 2147483647"

definition int8_in :: "int \<Rightarrow> bool" where
  "int8_in v \<longleftrightarrow> - 9223372036854775808 \<le> v \<and> v \<le> 9223372036854775807"

text \<open>No text of the store holds the character with code zero.\<close>

definition text_in :: "string \<Rightarrow> bool" where
  "text_in s \<longleftrightarrow> CHR 0x00 \<notin> set s"

text \<open>
  \<^verbatim>\<open>VARCHAR(n)\<close> on assignment: a longer text is refused unless the excess is all spaces,
  which are cut off. What is stored is the first \<open>n\<close> characters.
\<close>

definition varchar_in :: "nat \<Rightarrow> string \<Rightarrow> bool" where
  "varchar_in n s \<longleftrightarrow> text_in s \<and> (length s \<le> n \<or> set (drop n s) \<subseteq> {CHR '' ''})"

text \<open>\<^verbatim>\<open>bigint\<close> results (\<^verbatim>\<open>ROW_NUMBER\<close>, \<^verbatim>\<open>COUNT\<close>) reach the caller as decimal text.\<close>

definition digit_char :: "nat \<Rightarrow> char" where
  "digit_char n = ''0123456789'' ! (n mod 10)"

fun decimal :: "nat \<Rightarrow> string" where
  "decimal n = (if n < 10 then [digit_char n] else decimal (n div 10) @ [digit_char n])"

declare decimal.simps [simp del]

section \<open>Persisted state\<close>

text \<open>
  The tables that the game-session flow reads and writes, one record per row; a nullable
  column is an option. The floating-point annotation columns of \<^verbatim>\<open>round_responses\<close>
  (\<^verbatim>\<open>sentiment_score\<close>, \<^verbatim>\<open>empathy_score\<close>, \<^verbatim>\<open>energy_level\<close>) are written by no statement of
  the flow and are left out.
\<close>

record user =
  users_id :: uuid
  users_username :: string
  users_avatar :: "string option"

record game_session =
  gs_id :: uuid
  room_id :: "uuid option"
  status :: string
  current_round :: "int option"
  game_state :: "string option"
  participant_ids :: "uuid list"
  started_at :: "timestamp option"
  ended_at :: "timestamp option"
  created_at :: "timestamp option"
  metadata :: "string option"

record round_response =
  rr_id :: uuid
  game_session_id :: uuid
  user_id :: uuid
  round_number :: int
  round_type :: "string option"
  response_text :: "string option"
  response_data :: "string option"
  raw_score :: "int option"
  submitted_at :: timestamp

text \<open>
  The store: whether the pool can reach the server (\<^verbatim>\<open>query\<close> rethrows whatever
  \<^verbatim>\<open>pool.query\<close> throws), its tables in insertion order, and the session ids that rows of
  the other tables with a foreign key to \<^verbatim>\<open>game_sessions\<close> reference (\<^verbatim>\<open>matches\<close>,
  \<^verbatim>\<open>audience_votes\<close>, \<^verbatim>\<open>meme_uploads\<close>, \<^verbatim>\<open>chat_messages\<close>, \<^verbatim>\<open>leaderboards\<close>,
  \<^verbatim>\<open>analytics_events\<close>).
\<close>

record db =
  online :: bool
  users :: "user list"
  rooms :: "uuid list"
  game_sessions :: "game_session list"
  round_responses :: "round_response list"
  session_refs :: "uuid list"

datatype db_error =
  ConnectionError | SyntaxError | DataException | NotNullViolation | UniqueViolation
  | ForeignKeyViolation

section \<open>GameSessionRepository\<close>


definition findById :: "string \<Rightarrow> db \<Rightarrow> db_error + game_session option" where
  "findById i d =
     (if \<not> online d then Inl ConnectionError
      else
        (case uuid_in i of
           None \<Rightarrow> Inl DataException
         | Some k \<Rightarrow> Inr (find (\<lambda>s. gs_id s = k) (game_sessions d))))"

text \<open>
  The argument of \<^verbatim>\<open>update\<close> is a \<^verbatim>\<open>Partial<GameSession>\<close>: every key is absent, present
  without a value (\<^verbatim>\<open>undefined\<close>, sent as NULL) or present with one. The value of
  \<^verbatim>\<open>current_round\<close> is an integer, the elements of \<^verbatim>\<open>participant_ids\<close> are strings, a
  timestamp is a time that both \<^verbatim>\<open>Date\<close> and \<^verbatim>\<open>TIMESTAMP\<close> hold, \<^verbatim>\<open>metadata\<close> is the text
  \<^verbatim>\<open>JSON.stringify\<close> gives for a value that \<^verbatim>\<open>JSONB\<close> holds.
\<close>

datatype 'a supplied = Absent | Null | Value 'a

record session_updates =
  upd_id :: "string supplied"
  upd_room_id :: "string supplied"
  upd_status :: "string supplied"
  upd_current_round :: "int supplied"
  upd_game_state :: "string supplied"
  upd_participant_ids :: "string list supplied"
  upd_started_at :: "timestamp supplied"
  upd_ended_at :: "timestamp supplied"
  upd_created_at :: "timestamp supplied"
  upd_metadata :: "string supplied"

definition no_updates :: session_updates where
  "no_updates = \<lparr> upd_id = Absent, upd_room_id = Absent, upd_status = Absent,
                   upd_current_round = Absent, upd_game_state = Absent,
                   upd_participant_ids = Absent, upd_started_at = Absent,
                   upd_ended_at = Absent, upd_created_at = Absent, upd_metadata = Absent \<rparr>"

text \<open>\<^verbatim>\<open>fields.length === 0\<close>: no key was supplied.\<close>

definition fields_empty :: "session_updates \<Rightarrow> bool" where
  "fields_empty u \<longleftrightarrow>
     upd_id u = Absent \<and> upd_room_id u = Absent \<and> upd_status u = Absent \<and>
     upd_current_round u = Absent \<and> upd_game_state u = Absent \<and>
     upd_participant_ids u = Absent \<and> upd_started_at u = Absent \<and>
     upd_ended_at u = Absent \<and> upd_created_at u = Absent \<and> upd_metadata u = Absent"

text \<open>Every supplied value is in the type of its column.\<close>

definition accepted :: "('a \<Rightarrow> bool) \<Rightarrow> 'a supplied \<Rightarrow> bool" where
  "accepted ok x = (case x of Value v \<Rightarrow> ok v | Null \<Rightarrow> True | Absent \<Rightarrow> True)"

definition values_ok :: "session_updates \<Rightarrow> bool" where
  "values_ok u \<longleftrightarrow>
     accepted (\<lambda>v. uuid_in v \<noteq> None) (upd_id u) \<and>
     accepted (\<lambda>v. uuid_in v \<noteq> None) (upd_room_id u) \<and>
     accepted (varchar_in 50) (upd_status u) \<and>
     accepted int4_in (upd_current_round u) \<and>
     accepted (varchar_in 50) (upd_game_state u) \<and>
     accepted (list_all (\<lambda>p. uuid_in p \<noteq> None)) (upd_participant_ids u)"

text \<open>\<^verbatim>\<open>id\<close>, \<^verbatim>\<open>status\<close> and \<^verbatim>\<open>participant_ids\<close> are \<^verbatim>\<open>NOT NULL\<close>.\<close>

definition not_null_ok :: "session_updates \<Rightarrow> bool" where
  "not_null_ok u \<longleftrightarrow> upd_id u \<noteq> Null \<and> upd_status u \<noteq> Null \<and> upd_participant_ids u \<noteq> Null"

text \<open>
  The SET list built from the supplied keys, applied to one row: a nullable column and a
  \<^verbatim>\<open>NOT NULL\<close> one, each storing the value as its type holds it.
\<close>

definition put :: "'a supplied \<Rightarrow> ('a \<Rightarrow> 'b) \<Rightarrow> 'b option \<Rightarrow> 'b option" where
  "put x as_stored old = (case x of Absent \<Rightarrow> old | Null \<Rightarrow> None | Value v \<Rightarrow> Some (as_stored v))"

definition put_required :: "'a supplied \<Rightarrow> ('a \<Rightarrow> 'b) \<Rightarrow> 'b \<Rightarrow> 'b" where
  "put_required x as_stored old = (case x of Absent \<Rightarrow> old | Null \<Rightarrow> old | Value v \<Rightarrow> as_stored v)"

definition apply_updates :: "session_updates \<Rightarrow> game_session \<Rightarrow> game_session" where
  "apply_updates u s =
     s\<lparr> gs_id := put_required (upd_id u) canonical (gs_id s),
        room_id := put (upd_room_id u) canonical (room_id s),
        status := put_required (upd_status u) (take 50) (status s),
        current_round := put (upd_current_round u) (\<lambda>v. v) (current_round s),
        game_state := put (upd_game_state u) (take 50) (game_state s),
        participant_ids :=
          put_required (upd_participant_ids u) (map canonical) (participant_ids s),
        started_at := put (upd_started_at u) (\<lambda>v. v) (started_at s),
        ended_at := put (upd_ended_at u) (\<lambda>v. v) (ended_at s),
        created_at := put (upd_created_at u) (\<lambda>v. v) (created_at s),
        metadata := put (upd_metadata u) (\<lambda>v. v) (metadata s) \<rparr>"

text \<open>
  The foreign keys an updated row must keep: a supplied room exists, and a session that
  rows reference keeps its id.
\<close>

definition refs_ok :: "session_updates \<Rightarrow> game_session \<Rightarrow> db \<Rightarrow> bool" where
  "refs_ok u s d \<longleftrightarrow>
     accepted (\<lambda>r. canonical r \<in> set (rooms d)) (upd_room_id u) \<and>
     (gs_id (apply_updates u s) = gs_id s \<or>
      gs_id s \<notin> set (map game_session_id (round_responses d)) \<union> set (session_refs d))"

text \<open>
  \<^verbatim>\<open>update\<close>: with no supplied key it is \<^verbatim>\<open>findById\<close>; otherwise one UPDATE of the row
  with that id, returning the updated row, or \<^verbatim>\<open>null\<close> when no row has the id. The
  parameters are checked against their types before any row is looked at, the
  constraints on the row that is written: \<^verbatim>\<open>NOT NULL\<close>, then the primary key, then the
  foreign keys.
\<close>

definition update ::
  "string \<Rightarrow> session_updates \<Rightarrow> db \<Rightarrow> db_error + (db \<times> game_session option)"
where
  "update i u d =
     (if fields_empty u then
        (case findById i d of Inl e \<Rightarrow> Inl e | Inr r \<Rightarrow> Inr (d, r))
      else if \<not> online d then Inl ConnectionError
      else if \<not> (uuid_in i \<noteq> None \<and> values_ok u) then Inl DataException
      else
        (case find (\<lambda>s. gs_id s = canonical i) (game_sessions d) of
           None \<Rightarrow> Inr (d, None)
         | Some s \<Rightarrow>
             if \<not> not_null_ok u then Inl NotNullViolation
             else if gs_id (apply_updates u s) \<noteq> gs_id s \<and>
                     gs_id (apply_updates u s) \<in> set (map gs_id (game_sessions d))
             then Inl UniqueViolation
             else if \<not> refs_ok u s d then Inl ForeignKeyViolation
             else
               Inr (d\<lparr>game_sessions :=
                       map (\<lambda>r. if gs_id r = gs_id s then apply_updates u r else r)
                         (game_sessions d)\<rparr>,
                    Some (apply_updates u s))))"

text \<open>\<^verbatim>\<open>if (gameState)\<close>: an absent or empty string supplies no \<^verbatim>\<open>game_state\<close> key.\<close>

definition updateStatus ::
  "string \<Rightarrow> string \<Rightarrow> string option \<Rightarrow> db \<Rightarrow> db_error + (db \<times> game_session option)"
where
  "updateStatus i st gameState d =
     update i
       (no_updates\<lparr> upd_status := Value st,
                    upd_game_state :=
                      (case gameState of None \<Rightarrow> Absent
                       | Some g \<Rightarrow> if g = [] then Absent else Value g) \<rparr>) d"

definition endSession ::
  "string \<Rightarrow> timestamp \<Rightarrow> db \<Rightarrow> db_error + (db \<times> game_session option)"
where
  "endSession i now d =
     update i (no_updates\<lparr> upd_status := Value ''completed'', upd_ended_at := Value now \<rparr>) d"

section \<open>Round responses\<close>

text \<open>
  The INSERT statements into \<^verbatim>\<open>round_responses\<close> differ in the clauses that follow the
  column list. PostgreSQL accepts \<^verbatim>\<open>VALUES\<close>, then at most one \<^verbatim>\<open>ON CONFLICT\<close>, then at most
  one \<^verbatim>\<open>RETURNING\<close>, in this order; any other sequence is a syntax error.
\<close>

datatype insert_clause = Values | OnConflictDoUpdate | Returning

definition insert_syntax_ok :: "insert_clause list \<Rightarrow> bool" where
  "insert_syntax_ok cs \<longleftrightarrow>
     cs = [Values] \<or> cs = [Values, OnConflictDoUpdate] \<or> cs = [Values, Returning] \<or>
     cs = [Values, OnConflictDoUpdate, Returning]"

text \<open>The key of \<^verbatim>\<open>UNIQUE(game_session_id, user_id, round_number)\<close>.\<close>

definition same_key :: "round_response \<Rightarrow> round_response \<Rightarrow> bool" where
  "same_key a b \<longleftrightarrow>
     game_session_id a = game_session_id b \<and> user_id a = user_id b \<and>
     round_number a = round_number b"

text \<open>The parameters of the statement are in the types of their columns.\<close>

definition row_values_ok :: "round_response \<Rightarrow> bool" where
  "row_values_ok row \<longleftrightarrow>
     uuid_in (game_session_id row) \<noteq> None \<and> uuid_in (user_id row) \<noteq> None \<and>
     int4_in (round_number row) \<and>
     (case round_type row of None \<Rightarrow> True | Some t \<Rightarrow> varchar_in 50 t) \<and>
     (case response_text row of None \<Rightarrow> True | Some t \<Rightarrow> text_in t) \<and>
     (case raw_score row of None \<Rightarrow> True | Some v \<Rightarrow> int4_in v)"

definition as_stored :: "round_response \<Rightarrow> round_response" where
  "as_stored row =
     row\<lparr> game_session_id := canonical (game_session_id row),
          user_id := canonical (user_id row),
          round_type := map_option (take 50) (round_type row) \<rparr>"

text \<open>
  One INSERT of the row of its parameters under the table's constraints. On a key
  conflict the statement either updates \<^verbatim>\<open>response_text\<close> and \<^verbatim>\<open>response_data\<close> of the
  stored row (when it has the \<^verbatim>\<open>ON CONFLICT ... DO UPDATE\<close> clause) or fails; both foreign
  keys must reference existing rows.
\<close>

definition insert_round_response ::
  "insert_clause list \<Rightarrow> round_response \<Rightarrow> db \<Rightarrow> db_error + (db \<times> round_response)"
where
  "insert_round_response clauses row d =
     (if \<not> online d then Inl ConnectionError
      else if \<not> insert_syntax_ok clauses then Inl SyntaxError
      else if \<not> row_values_ok row then Inl DataException
      else
        (case find (same_key (as_stored row)) (round_responses d) of
           Some old \<Rightarrow>
             if OnConflictDoUpdate \<in> set clauses then
               let new = old\<lparr> response_text := response_text row,
                               response_data := response_data row \<rparr>
               in Inr (d\<lparr>round_responses :=
                          map (\<lambda>r. if same_key (as_stored row) r then new else r)
                            (round_responses d)\<rparr>,
                       new)
             else Inl UniqueViolation
         | None \<Rightarrow>
             if rr_id row \<in> set (map rr_id (round_responses d)) then Inl UniqueViolation
             else if game_session_id (as_stored row) \<in> set (map gs_id (game_sessions d)) \<and>
                     user_id (as_stored row) \<in> set (map users_id (users d))
             then Inr (d\<lparr>round_responses := round_responses d @ [as_stored row]\<rparr>,
                       as_stored row)
             else Inl ForeignKeyViolation))"

section \<open>Real-time gateway\<close>

text \<open>
  A connection after the authentication middleware: its identity, the session it last
  joined and the rooms it is in.
\<close>

record socket =
  socket_id :: string
  userId :: string
  username :: string
  sessionId :: "string option"
  joined_rooms :: "string list"

text \<open>
  What a handler sends: the events it emits, each to a room (\<^verbatim>\<open>io.to(room)\<close>) or to a
  room without the sender (\<^verbatim>\<open>socket.broadcast.to(room)\<close>), and the acknowledgment it
  passes to the caller's callback.
\<close>

datatype event =
    UserJoined string string
  | GameStarted "game_session option" timestamp
  | ResponseSubmitted string string int
  | RoundChanged int string timestamp
  | GameFinished timestamp

datatype target = ToRoom string | ToRoomExceptSender string string

datatype ack_data = NoData | SessionData game_session | ResponseData round_response

datatype ack = Success ack_data | Failure string

definition join_session ::
  "socket \<Rightarrow> string \<Rightarrow> db \<Rightarrow> socket \<times> (target \<times> event) list \<times> ack"
where
  "join_session sock sid d =
     (case findById sid d of
        Inl e \<Rightarrow> (sock, [], Failure ''Internal server error'')
      | Inr None \<Rightarrow> (sock, [], Failure ''Session not found'')
      | Inr (Some session) \<Rightarrow>
          if userId sock \<notin> set (participant_ids session) then
            (sock, [], Failure ''Not a participant in this session'')
          else
            (sock\<lparr> sessionId := Some sid,
                   joined_rooms := List.insert sid (joined_rooms sock) \<rparr>,
             [(ToRoomExceptSender sid (socket_id sock),
               UserJoined (userId sock) (username sock))],
             Success (SessionData session)))"

definition start_game ::
  "socket \<Rightarrow> string \<Rightarrow> timestamp \<Rightarrow> db \<Rightarrow> db \<times> (target \<times> event) list \<times> ack"
where
  "start_game sock sid now d =
     (case updateStatus sid ''playing'' (Some ''questions'') d of
        Inl e \<Rightarrow> (d, [], Failure ''Failed to start game'')
      | Inr (d', updated) \<Rightarrow>
          (d', [(ToRoom sid, GameStarted updated now)], Success NoData))"

text \<open>
  \<^verbatim>\<open>submit-response\<close>: a plain INSERT (\<^verbatim>\<open>VALUES ... RETURNING *\<close>) with \<^verbatim>\<open>raw_score\<close> 10;
  the generated row id and the store's clock are inputs of the model.
\<close>

definition submit_response ::
  "socket \<Rightarrow> string \<Rightarrow> int \<Rightarrow> string \<Rightarrow> string \<Rightarrow> uuid \<Rightarrow> timestamp \<Rightarrow> db
     \<Rightarrow> db \<times> (target \<times> event) list \<times> ack"
where
  "submit_response sock sid roundNumber roundType responseText new_id now d =
     (case insert_round_response [Values, Returning]
             \<lparr> rr_id = new_id, game_session_id = sid, user_id = userId sock,
               round_number = roundNumber, round_type = Some roundType,
               response_text = Some responseText, response_data = None,
               raw_score = Some 10, submitted_at = now \<rparr> d of
        Inl e \<Rightarrow> (d, [], Failure ''Failed to submit response'')
      | Inr (d', row) \<Rightarrow>
          (d', [(ToRoom sid, ResponseSubmitted (userId sock) (username sock) roundNumber)],
           Success (ResponseData row)))"

subsection \<open>Advancing the round\<close>

definition roundSequence :: "string list" where
  "roundSequence = [''questions'', ''synergy'', ''blindChat'', ''humor'', ''results'']"

text \<open>\<^verbatim>\<open>Array.prototype.indexOf\<close>: the first position of the element, or \<open>-1\<close>.\<close>

fun indexOf_from :: "'a list \<Rightarrow> 'a \<Rightarrow> int \<Rightarrow> int" where
  "indexOf_from [] x i = - 1"
| "indexOf_from (y # ys) x i = (if y = x then i else indexOf_from ys x (i + 1))"

definition indexOf :: "'a list \<Rightarrow> 'a \<Rightarrow> int" where
  "indexOf xs x = indexOf_from xs x 0"

text \<open>\<^verbatim>\<open>session.game_state || 'questions'\<close>: \<^verbatim>\<open>null\<close> and the empty string are falsy.\<close>

definition or_default :: "string option \<Rightarrow> string \<Rightarrow> string" where
  "or_default v dflt = (case v of None \<Rightarrow> dflt | Some s \<Rightarrow> if s = [] then dflt else s)"

definition currentIndex :: "game_session \<Rightarrow> int" where
  "currentIndex session = indexOf roundSequence (or_default (game_state session) ''questions'')"

text \<open>
  The \<^verbatim>\<open>next-round\<close> handler awaits the store twice: it reads the session, and then writes
  what it computed from the row it read. \<open>next_round_write\<close> is the handler from the
  moment the read has returned \<open>found\<close>; it runs on the store as it is by then.
\<close>

definition next_round_write ::
  "socket \<Rightarrow> string \<Rightarrow> timestamp \<Rightarrow> db_error + game_session option \<Rightarrow> db
     \<Rightarrow> db \<times> (target \<times> event) list \<times> ack"
where
  "next_round_write sock sid now found d =
     (case found of
        Inl e \<Rightarrow> (d, [], Failure ''Failed to advance round'')
      | Inr None \<Rightarrow> (d, [], Failure ''Session not found'')
      | Inr (Some session) \<Rightarrow>
          let nextIndex = currentIndex session + 1 in
          if nextIndex \<ge> int (length roundSequence) then
            (case endSession sid now d of
               Inl e \<Rightarrow> (d, [], Failure ''Failed to advance round'')
             | Inr (d', ended) \<Rightarrow> (d', [(ToRoom sid, GameFinished now)], Success NoData))
          else
            let nextState = roundSequence ! nat nextIndex in
            (case update sid (no_updates\<lparr> upd_game_state := Value nextState,
                                            upd_current_round := Value nextIndex \<rparr>) d of
               Inl e \<Rightarrow> (d, [], Failure ''Failed to advance round'')
             | Inr (d', updated) \<Rightarrow>
                 (d', [(ToRoom sid, RoundChanged nextIndex nextState now)], Success NoData)))"

text \<open>One call of the handler with nothing running between its read and its write.\<close>

definition next_round ::
  "socket \<Rightarrow> string \<Rightarrow> timestamp \<Rightarrow> db \<Rightarrow> db \<times> (target \<times> event) list \<times> ack"
where
  "next_round sock sid now d = next_round_write sock sid now (findById sid d) d"

section \<open>REST surface\<close>

text \<open>
  A route either responds with data or throws: an \<^verbatim>\<open>ApiError\<close> with its status code and
  message, or whatever the store threw (handed by \<^verbatim>\<open>asyncHandler\<close> to the error
  middleware). Every route returns the store with its outcome. The validator
  \<^verbatim>\<open>isUUID\<close> of express-validator is a parameter; the authenticated \<^verbatim>\<open>req.userId\<close> is an
  argument.
\<close>

datatype http_error = ApiError nat string | Thrown db_error

definition ValidationError :: http_error where
  "ValidationError = ApiError 422 ''Validation failed''"

definition NotFound :: "string \<Rightarrow> http_error" where
  "NotFound msg = ApiError 404 msg"

definition Forbidden :: "string \<Rightarrow> http_error" where
  "Forbidden msg = ApiError 403 msg"






text \<open>
  \<^verbatim>\<open>POST /session/:sessionId/response\<close>. Its statement reads
  \<^verbatim>\<open>INSERT ... VALUES (...) RETURNING * ON CONFLICT (...) DO UPDATE SET ... RETURNING *\<close>.
\<close>

record response_body =
  body_roundNumber :: int
  body_roundType :: string
  body_responseText :: "string option"
  body_responseData :: "string option"

definition post_response ::
  "(string \<Rightarrow> bool) \<Rightarrow> string \<Rightarrow> string \<Rightarrow> response_body \<Rightarrow> uuid \<Rightarrow> timestamp \<Rightarrow> db
     \<Rightarrow> db \<times> (http_error + round_response)"
where
  "post_response isUUID reqUserId sid b new_id now d =
     (if \<not> (isUUID sid \<and> 1 \<le> body_roundNumber b) then (d, Inl ValidationError)
      else
        (case findById sid d of
           Inl e \<Rightarrow> (d, Inl (Thrown e))
         | Inr None \<Rightarrow> (d, Inl (NotFound ''Game session not found''))
         | Inr (Some session) \<Rightarrow>
             if reqUserId \<notin> set (participant_ids session) then
               (d, Inl (Forbidden ''You are not participating in this session''))
             else
               (case insert_round_response
                       [Values, Returning, OnConflictDoUpdate, Returning]
                       \<lparr> rr_id = new_id, game_session_id = sid, user_id = reqUserId,
                         round_number = body_roundNumber b,
                         round_type = Some (body_roundType b),
                         response_text = body_responseText b,
                         response_data =
                           Some (case body_responseData b of None \<Rightarrow> ''{}'' | Some j \<Rightarrow> j),
                         raw_score = Some 10, submitted_at = now \<rparr> d of
                  Inl e \<Rightarrow> (d, Inl (Thrown e))
                | Inr (d', row) \<Rightarrow> (d', Inr row))))"

section \<open>Session leaderboard\<close>

text \<open>
  \<^verbatim>\<open>getLeaderboard\<close> is one SELECT. Its FROM clause takes the session with the given id,
  one row per element of its \<^verbatim>\<open>participant_ids\<close> (\<^verbatim>\<open>unnest\<close>), joined with the user of that
  id and left-joined with that user's responses in the session: a user without a
  response keeps one row whose response columns are NULL. Lookups by a primary key
  find at most one row.
\<close>

definition joined_rows :: "uuid \<Rightarrow> db \<Rightarrow> (user \<times> round_response option) list" where
  "joined_rows sid d =
     (case find (\<lambda>gs. gs_id gs = sid) (game_sessions d) of
        None \<Rightarrow> []
      | Some gs \<Rightarrow>
          concat (map (\<lambda>participant_id.
            (case find (\<lambda>u. users_id u = participant_id) (users d) of
               None \<Rightarrow> []
             | Some u \<Rightarrow>
                 let rrs = filter (\<lambda>rr. game_session_id rr = gs_id gs \<and> user_id rr = users_id u)
                             (round_responses d)
                 in if rrs = [] then [(u, None)] else map (\<lambda>rr. (u, Some rr)) rrs))
            (participant_ids gs)))"

text \<open>\<^verbatim>\<open>COALESCE(rr.raw_score, 0)\<close> on a joined row.\<close>

definition coalesce_raw_score :: "round_response option \<Rightarrow> int" where
  "coalesce_raw_score r =
     (case r of None \<Rightarrow> 0
      | Some rr \<Rightarrow> (case raw_score rr of None \<Rightarrow> 0 | Some v \<Rightarrow> v))"

text \<open>
  \<^verbatim>\<open>GROUP BY u.id\<close> with the aggregates \<^verbatim>\<open>SUM(COALESCE(rr.raw_score, 0))\<close> and
  \<^verbatim>\<open>COUNT(DISTINCT rr.round_number)\<close>: one group per user id among the joined rows.
\<close>

record score_group =
  group_user :: user
  total_score :: int
  rounds_completed :: nat

definition group_by_user :: "(user \<times> round_response option) list \<Rightarrow> score_group list" where
  "group_by_user rows =
     concat (map (\<lambda>k.
       (case filter (\<lambda>row. users_id (fst row) = k) rows of
          [] \<Rightarrow> []
        | row # rest \<Rightarrow>
            [\<lparr> group_user = fst row,
               total_score = sum_list (map (\<lambda>x. coalesce_raw_score (snd x)) (row # rest)),
               rounds_completed =
                 length (remdups (concat (map (\<lambda>x. case snd x of None \<Rightarrow> []
                                                   | Some rr \<Rightarrow> [round_number rr])
                                           (row # rest)))) \<rparr>]))
       (remdups (map (\<lambda>row. users_id (fst row)) rows)))"

text \<open>
  The rows returned to the caller. The average sentiment, a floating-point aggregate, is
  left out. \<^verbatim>\<open>ROW_NUMBER() OVER (ORDER BY total DESC)\<close> numbers the groups from 1 in
  the order of \<^verbatim>\<open>ORDER BY total_score DESC\<close>. SQL leaves the order of groups with equal
  totals to the executor: its preference among them is the parameter \<open>tie\<close>, smaller
  first. \<^verbatim>\<open>LIMIT\<close> takes a \<^verbatim>\<open>bigint\<close> that is not negative and keeps a prefix. The
  caller gets \<^verbatim>\<open>score\<close> through \<^verbatim>\<open>parseInt\<close> as a number, \<^verbatim>\<open>rank\<close> and
  \<^verbatim>\<open>roundsCompleted\<close> as the driver hands them over: the decimal text of a \<^verbatim>\<open>bigint\<close>.
\<close>

record leaderboard_entry =
  entry_id :: uuid
  entry_username :: string
  entry_avatar :: "string option"
  score :: int
  rank :: string
  roundsCompleted :: string

definition getLeaderboard ::
  "(score_group \<Rightarrow> nat) \<Rightarrow> string \<Rightarrow> int \<Rightarrow> db \<Rightarrow> db_error + leaderboard_entry list"
where
  "getLeaderboard tie sid limit d =
     (if \<not> online d then Inl ConnectionError
      else
        (case uuid_in sid of
           None \<Rightarrow> Inl DataException
         | Some k \<Rightarrow>
             if \<not> (int8_in limit \<and> 0 \<le> limit) then Inl DataException
             else
               Inr (take (nat limit)
                 (map (\<lambda>(n, g).
                         \<lparr> entry_id = users_id (group_user g),
                           entry_username = users_username (group_user g),
                           entry_avatar = users_avatar (group_user g),
                           score = total_score g, rank = decimal n,
                           roundsCompleted = decimal (rounds_completed g) \<rparr>)
                    (enumerate 1
                       (sort_key (\<lambda>g. - total_score g)
                          (sort_key tie (group_by_user (joined_rows k d)))))))))"

text \<open>\<^verbatim>\<open>GET /session/:sessionId/leaderboard\<close> calls it with the default limit of 10.\<close>

definition get_leaderboard_route ::
  "(string \<Rightarrow> bool) \<Rightarrow> (score_group \<Rightarrow> nat) \<Rightarrow> string \<Rightarrow> db
     \<Rightarrow> http_error + (leaderboard_entry list \<times> nat)"
where
  "get_leaderboard_route isUUID tie sid d =
     (if \<not> isUUID sid then Inl ValidationError
      else
        (case getLeaderboard tie sid 10 d of
           Inl e \<Rightarrow> Inl (Thrown e)
         | Inr leaderboard \<Rightarrow> Inr (leaderboard, length leaderboard)))"


section \<open>The round invariant\<close>


section \<open>Example stores\<close>

definition u1 :: uuid where "u1 = ''00000000-0000-4000-8000-0000000000a1''"
definition u2 :: uuid where "u2 = ''00000000-0000-4000-8000-0000000000a2''"
definition u3 :: uuid where "u3 = ''00000000-0000-4000-8000-0000000000a3''"
definition r1 :: uuid where "r1 = ''00000000-0000-4000-8000-0000000000b1''"
definition s1 :: uuid where "s1 = ''00000000-0000-4000-8000-0000000000c1''"
definition s9 :: uuid where "s9 = ''00000000-0000-4000-8000-0000000000c9''"
definition x1 :: uuid where "x1 = ''00000000-0000-4000-8000-0000000000d1''"
definition x2 :: uuid where "x2 = ''00000000-0000-4000-8000-0000000000d2''"
definition x3 :: uuid where "x3 = ''00000000-0000-4000-8000-0000000000d3''"

definition example_users :: "user list" where
  "example_users =
     [\<lparr> users_id = u1, users_username = ''ann'', users_avatar = None \<rparr>,
      \<lparr> users_id = u2, users_username = ''bo'', users_avatar = None \<rparr>,
      \<lparr> users_id = u3, users_username = ''cy'', users_avatar = None \<rparr>]"

definition lobby_session :: game_session where
  "lobby_session =
     \<lparr> gs_id = s1, room_id = Some r1, status = ''lobby'', current_round = Some 0,
       game_state = None, participant_ids = [u1, u2], started_at = None,
       ended_at = None, created_at = Some 1, metadata = Some ''{}'' \<rparr>"

definition empty_db :: db where
  "empty_db = \<lparr> online = True, users = example_users, rooms = [r1],
                 game_sessions = [], round_responses = [], session_refs = [] \<rparr>"

definition lobby_db :: db where
  "lobby_db = empty_db\<lparr> game_sessions := [lobby_session] \<rparr>"

definition sock_of :: "uuid \<Rightarrow> string \<Rightarrow> socket" where
  "sock_of uid name =
     \<lparr> socket_id = ''c-'' @ name, userId = uid, username = name, sessionId = None,
       joined_rooms = [] \<rparr>"

definition results_session :: game_session where
  "results_session =
     lobby_session\<lparr> status := ''playing'', current_round := Some 4,
                    game_state := Some ''results'' \<rparr>"

definition results_db :: db where
  "results_db = empty_db\<lparr> game_sessions := [results_session] \<rparr>"

definition labelled_db :: "string \<Rightarrow> db" where
  "labelled_db l = empty_db\<lparr> game_sessions := [lobby_session\<lparr> game_state := Some l \<rparr>] \<rparr>"

definition scored_session :: game_session where
  "scored_session = lobby_session\<lparr> participant_ids := [u1, u2, u3] \<rparr>"

definition scored_row :: "uuid \<Rightarrow> uuid \<Rightarrow> int \<Rightarrow> round_response" where
  "scored_row i uid pts =
     \<lparr> rr_id = i, game_session_id = s1, user_id = uid, round_number = 1,
       round_type = Some ''questions'', response_text = Some ''Test response'',
       response_data = None, raw_score = Some pts, submitted_at = 2 \<rparr>"

definition scored_db :: db where
  "scored_db =
     empty_db\<lparr> game_sessions := [scored_session],
               round_responses :=
                 [scored_row x1 u1 30, scored_row x2 u2 50, scored_row x3 u3 10] \<rparr>"

text \<open>An executor that leaves groups with equal totals in the order it built them.\<close>

definition listed_order :: "score_group \<Rightarrow> nat" where
  "listed_order g = 0"


section \<open>Store lemmas\<close>

lemma find_Some_holds: "find P xs = Some x \<Longrightarrow> P x \<and> x \<in> set xs"
  by (induction xs) (auto split: if_splits)

lemma find_none_map:
  "find P xs = None \<Longrightarrow> map (\<lambda>s. if P s then f s else s) xs = xs"
  by (induction xs) (auto split: if_splits)

lemma find_map_upd:
  "(\<And>s. P (f s) = P s) \<Longrightarrow>
   find P (map (\<lambda>s. if P s then f s else s) xs) = map_option f (find P xs)"
  by (induction xs) auto

lemma canonical_Some: "uuid_in i = Some k \<Longrightarrow> canonical i = k"
  by (simp add: canonical_def)

text \<open>What a successful lookup says about the store.\<close>

lemma findById_found:
  assumes "findById sid d = Inr (Some s)"
  shows "online d" and "uuid_in sid = Some (gs_id s)" and "canonical sid = gs_id s"
    and "find (\<lambda>r. gs_id r = gs_id s) (game_sessions d) = Some s"
proof -
  from assms show on: "online d" by (auto simp: findById_def split: if_splits)
  from assms on obtain k where k: "uuid_in sid = Some k"
    and f: "find (\<lambda>r. gs_id r = k) (game_sessions d) = Some s"
    by (auto simp: findById_def split: option.splits)
  from f have "gs_id s = k" by (auto dest: find_Some_holds)
  with k f show "uuid_in sid = Some (gs_id s)"
    and "find (\<lambda>r. gs_id r = gs_id s) (game_sessions d) = Some s" by simp_all
  then show "canonical sid = gs_id s" by (simp add: canonical_Some)
qed

lemma findById_after_map:
  assumes "findById sid d = Inr (Some s)" and "\<And>r. gs_id (f r) = gs_id r"
  shows "findById sid
           (d\<lparr>game_sessions :=
                map (\<lambda>r. if gs_id r = gs_id s then f r else r) (game_sessions d)\<rparr>)
         = Inr (Some (f s))"
proof -
  note found = findById_found[OF assms(1)]
  have "find (\<lambda>r. gs_id r = gs_id s)
          (map (\<lambda>r. if gs_id r = gs_id s then f r else r) (game_sessions d))
        = map_option f (find (\<lambda>r. gs_id r = gs_id s) (game_sessions d))"
    by (rule find_map_upd) (simp add: assms(2))
  with found show ?thesis by (simp add: findById_def)
qed

text \<open>
  An update that supplies neither an id nor a room, with values of the columns' types
  and no NULL for a required column, rewrites the found row.
\<close>

lemma update_found_row:
  assumes "findById sid d = Inr (Some s)" and "\<not> fields_empty u"
    and "values_ok u" and "not_null_ok u"
    and "upd_id u = Absent" and "upd_room_id u = Absent"
  shows "update sid u d =
           Inr (d\<lparr>game_sessions :=
                    map (\<lambda>r. if gs_id r = gs_id s then apply_updates u r else r)
                      (game_sessions d)\<rparr>,
                Some (apply_updates u s))"
proof -
  note found = findById_found[OF assms(1)]
  have same: "gs_id (apply_updates u s) = gs_id s"
    using assms(5) by (simp add: apply_updates_def put_required_def)
  have refs: "refs_ok u s d"
    using assms(6) same by (simp add: refs_ok_def accepted_def)
  show ?thesis
    using assms(2,3,4) found same refs by (simp add: update_def)
qed

section \<open>Starting a game\<close>

lemma start_game_accepted:
  assumes "online d" and "uuid_in sid = Some k"
  shows "start_game sock sid now d =
       (d\<lparr>game_sessions :=
            map (\<lambda>s. if gs_id s = k
                     then s\<lparr>status := ''playing'', game_state := Some ''questions''\<rparr> else s)
              (game_sessions d)\<rparr>,
        [(ToRoom sid,
          GameStarted
            (map_option (\<lambda>s. s\<lparr>status := ''playing'', game_state := Some ''questions''\<rparr>)
               (find (\<lambda>s. gs_id s = k) (game_sessions d))) now)],
        Success NoData)"
proof -
  let ?u = "no_updates\<lparr> upd_status := Value ''playing'', upd_game_state := Value ''questions'' \<rparr>"
  have ne: "\<not> fields_empty ?u" by (simp add: fields_empty_def)
  have ok: "values_ok ?u"
    by (simp add: values_ok_def accepted_def no_updates_def varchar_in_def text_in_def)
  have nn: "not_null_ok ?u" by (simp add: not_null_ok_def no_updates_def)
  have app: "apply_updates ?u r = r\<lparr>status := ''playing'', game_state := Some ''questions''\<rparr>"
    for r by (simp add: apply_updates_def put_def put_required_def no_updates_def)
  have room: "upd_room_id ?u = Absent" by (simp add: no_updates_def)
  have refs: "refs_ok ?u r d" for r
    by (simp add: refs_ok_def accepted_def app room)
  have c: "canonical sid = k" using assms(2) by (rule canonical_Some)
  show ?thesis
  proof (cases "find (\<lambda>s. gs_id s = k) (game_sessions d)")
    case None
    then show ?thesis
      using assms ne ok c
      by (simp add: start_game_def updateStatus_def update_def find_none_map)
  next
    case (Some s)
    then have "gs_id s = k" by (auto dest: find_Some_holds)
    with Some show ?thesis
      using assms ne ok nn c refs
      by (simp add: start_game_def updateStatus_def update_def app)
  qed
qed

lemma start_game_refused:
  assumes "\<not> online d \<or> uuid_in sid = None"
  shows "start_game sock sid now d = (d, [], Failure ''Failed to start game'')"
  using assms
  by (auto simp: start_game_def updateStatus_def update_def fields_empty_def)

text \<open>
  Claim C10. The \<^verbatim>\<open>start-game\<close> handler validates nothing. Whoever the connection is and
  whatever the session id, when the store does not throw (it is reachable and the id is
  the text of a uuid) the handler sets status \<^verbatim>\<open>'playing'\<close> and round label
  \<^verbatim>\<open>'questions'\<close> on the row with that id (on no row when there is none), emits
  \<^verbatim>\<open>game-started\<close> to the room and acknowledges success. When the store throws, the
  acknowledgment is \<^verbatim>\<open>'Failed to start game'\<close> and nothing is emitted. No other outcome
  exists: neither a not-found nor a not-a-participant failure.
\<close>

theorem start_game_no_validation:
  "(online d \<and> uuid_in sid = Some k \<longrightarrow>
      start_game sock sid now d =
        (d\<lparr>game_sessions :=
             map (\<lambda>s. if gs_id s = k
                      then s\<lparr>status := ''playing'', game_state := Some ''questions''\<rparr> else s)
               (game_sessions d)\<rparr>,
         [(ToRoom sid,
           GameStarted
             (map_option (\<lambda>s. s\<lparr>status := ''playing'', game_state := Some ''questions''\<rparr>)
                (find (\<lambda>s. gs_id s = k) (game_sessions d))) now)],
         Success NoData)) \<and>
   (\<not> online d \<or> uuid_in sid = None \<longrightarrow>
      start_game sock sid now d = (d, [], Failure ''Failed to start game''))"
  using start_game_accepted [of d sid k sock now] start_game_refused [of d sid sock now]
  by blast

theorem start_game_no_validation_witness:
  "u3 \<notin> set (participant_ids lobby_session) \<and>
   start_game (sock_of u3 ''cy'') s1 7 lobby_db =
     (lobby_db\<lparr>game_sessions :=
                 [lobby_session\<lparr>status := ''playing'', game_state := Some ''questions''\<rparr>]\<rparr>,
      [(ToRoom s1,
        GameStarted (Some (lobby_session\<lparr>status := ''playing'',
                                         game_state := Some ''questions''\<rparr>)) 7)],
      Success NoData) \<and>
   start_game (sock_of u3 ''cy'') s9 7 lobby_db =
     (lobby_db, [(ToRoom s9, GameStarted None 7)], Success NoData) \<and>
   start_game (sock_of u3 ''cy'') ''not-a-uuid'' 7 lobby_db =
     (lobby_db, [], Failure ''Failed to start game'') \<and>
   start_game (sock_of u3 ''cy'') s1 7 (lobby_db\<lparr>online := False\<rparr>) =
     (lobby_db\<lparr>online := False\<rparr>, [], Failure ''Failed to start game'')"
proof -
  have on: "online lobby_db" by (simp add: lobby_db_def empty_db_def)
  have p1: "uuid_in s1 = Some s1" and p9: "uuid_in s9 = Some s9"
    and pn: "uuid_in ''not-a-uuid'' = None"
    by code_simp+
  have rows: "game_sessions lobby_db = [lobby_session]" "gs_id lobby_session = s1"
    "s1 \<noteq> s9"
    by (simp_all add: lobby_db_def empty_db_def lobby_session_def s1_def s9_def)
  have np: "u3 \<notin> set (participant_ids lobby_session)"
    by (simp add: lobby_session_def u1_def u2_def u3_def)
  from start_game_no_validation [of lobby_db s1 s1 "sock_of u3 ''cy''" 7]
       start_game_no_validation [of lobby_db s9 s9 "sock_of u3 ''cy''" 7]
       start_game_no_validation [of lobby_db "''not-a-uuid''" s1 "sock_of u3 ''cy''" 7]
       start_game_no_validation [of "lobby_db\<lparr>online := False\<rparr>" s1 s1 "sock_of u3 ''cy''" 7]
       on p1 p9 pn rows np
  show ?thesis by simp
qed

section \<open>Advancing the round\<close>

lemma indexOf_from_absent: "x \<notin> set xs \<Longrightarrow> indexOf_from xs x i = - 1"
  by (induction xs arbitrary: i) auto

lemma indexOf_from_bounds:
  "indexOf_from xs x i = - 1 \<or>
   (i \<le> indexOf_from xs x i \<and> indexOf_from xs x i < i + int (length xs))"
  by (induction xs arbitrary: i) (auto, force+)

lemma currentIndex_bounds: "- 1 \<le> currentIndex s \<and> currentIndex s \<le> 4"
  using indexOf_from_bounds[of roundSequence "or_default (game_state s) ''questions''" 0]
  by (auto simp: currentIndex_def indexOf_def roundSequence_def)

lemma round_cases: "0 \<le> n \<Longrightarrow> n < 5 \<Longrightarrow> n = 0 \<or> n = 1 \<or> n = 2 \<or> n = 3 \<or> n = (4::int)"
  by arith

lemma indexOf_nth_roundSequence:
  "0 \<le> n \<Longrightarrow> n < 5 \<Longrightarrow> indexOf roundSequence (roundSequence ! nat n) = n"
  by (drule (1) round_cases) (auto simp: indexOf_def roundSequence_def)

text \<open>A label of the sequence and its position are values of their columns.\<close>

lemma round_values:
  assumes "0 \<le> n" and "n < 5"
  shows "varchar_in 50 (roundSequence ! nat n)" and "int4_in n"
    and "take 50 (roundSequence ! nat n) = roundSequence ! nat n"
    and "roundSequence ! nat n \<noteq> []"
  using round_cases[OF assms]
  by (auto simp: roundSequence_def varchar_in_def text_in_def int4_in_def)

text \<open>
  The write of a call that read the row \<open>session\<close>, on a store that holds a row \<open>t\<close>
  under the id.
\<close>

lemma next_round_write_advance:
  assumes "findById sid d = Inr (Some t)" and "currentIndex session + 1 < 5"
  shows "next_round_write sock sid now (Inr (Some session)) d =
           (d\<lparr>game_sessions :=
                map (\<lambda>r. if gs_id r = gs_id t
                         then r\<lparr>current_round := Some (currentIndex session + 1),
                                game_state :=
                                  Some (roundSequence ! nat (currentIndex session + 1))\<rparr>
                         else r) (game_sessions d)\<rparr>,
            [(ToRoom sid,
              RoundChanged (currentIndex session + 1)
                (roundSequence ! nat (currentIndex session + 1)) now)],
            Success NoData)"
proof -
  let ?n = "currentIndex session + 1"
  let ?l = "roundSequence ! nat ?n"
  let ?u = "no_updates\<lparr> upd_game_state := Value ?l, upd_current_round := Value ?n \<rparr>"
  from assms(2) currentIndex_bounds[of session] have n: "0 \<le> ?n" "?n < 5" by auto
  note vals = round_values[OF n]
  have ne: "\<not> fields_empty ?u" by (simp add: fields_empty_def)
  have ok: "values_ok ?u"
    using vals(1,2) by (simp add: values_ok_def accepted_def no_updates_def)
  have nn: "not_null_ok ?u" by (simp add: not_null_ok_def no_updates_def)
  have ids: "upd_id ?u = Absent" "upd_room_id ?u = Absent" by (simp_all add: no_updates_def)
  have app: "apply_updates ?u r = r\<lparr>current_round := Some ?n, game_state := Some ?l\<rparr>" for r
    using vals(3) by (simp add: apply_updates_def put_def put_required_def no_updates_def)
  have upd: "update sid ?u d =
           Inr (d\<lparr>game_sessions :=
                    map (\<lambda>r. if gs_id r = gs_id t then apply_updates ?u r else r)
                      (game_sessions d)\<rparr>,
                Some (apply_updates ?u t))"
    by (rule update_found_row[OF assms(1) ne ok nn ids])
  from assms(2) have lt: "\<not> 5 \<le> ?n" by simp
  have len: "int (length roundSequence) = 5" by (simp add: roundSequence_def)
  show ?thesis
    unfolding next_round_write_def Let_def len
    using lt by (simp add: upd app cong: if_cong)
qed

lemma next_round_write_finish:
  assumes "findById sid d = Inr (Some t)" and "5 \<le> currentIndex session + 1"
  shows "next_round_write sock sid now (Inr (Some session)) d =
           (d\<lparr>game_sessions :=
                map (\<lambda>r. if gs_id r = gs_id t
                         then r\<lparr>status := ''completed'', ended_at := Some now\<rparr>
                         else r) (game_sessions d)\<rparr>,
            [(ToRoom sid, GameFinished now)], Success NoData)"
proof -
  let ?u = "no_updates\<lparr> upd_status := Value ''completed'', upd_ended_at := Value now \<rparr>"
  have ne: "\<not> fields_empty ?u" by (simp add: fields_empty_def)
  have ok: "values_ok ?u"
    by (simp add: values_ok_def accepted_def no_updates_def varchar_in_def text_in_def)
  have nn: "not_null_ok ?u" by (simp add: not_null_ok_def no_updates_def)
  have ids: "upd_id ?u = Absent" "upd_room_id ?u = Absent" by (simp_all add: no_updates_def)
  have app: "apply_updates ?u r = r\<lparr>status := ''completed'', ended_at := Some now\<rparr>" for r
    by (simp add: apply_updates_def put_def put_required_def no_updates_def)
  have upd: "update sid ?u d =
           Inr (d\<lparr>game_sessions :=
                    map (\<lambda>r. if gs_id r = gs_id t then apply_updates ?u r else r)
                      (game_sessions d)\<rparr>,
                Some (apply_updates ?u t))"
    by (rule update_found_row[OF assms(1) ne ok nn ids])
  have len: "int (length roundSequence) = 5" by (simp add: roundSequence_def)
  show ?thesis
    unfolding next_round_write_def Let_def len endSession_def
    using assms(2) by (simp add: upd app cong: if_cong)
qed

lemma next_round_advance:
  assumes "findById sid d = Inr (Some s)" and "currentIndex s + 1 < 5"
  shows "next_round sock sid now d =
           (d\<lparr>game_sessions :=
                map (\<lambda>r. if gs_id r = gs_id s
                         then r\<lparr>current_round := Some (currentIndex s + 1),
                                game_state := Some (roundSequence ! nat (currentIndex s + 1))\<rparr>
                         else r) (game_sessions d)\<rparr>,
            [(ToRoom sid,
              RoundChanged (currentIndex s + 1) (roundSequence ! nat (currentIndex s + 1)) now)],
            Success NoData)"
  unfolding next_round_def assms(1) by (rule next_round_write_advance[OF assms])

lemma next_round_finish:
  assumes "findById sid d = Inr (Some s)" and "5 \<le> currentIndex s + 1"
  shows "next_round sock sid now d =
           (d\<lparr>game_sessions :=
                map (\<lambda>r. if gs_id r = gs_id s
                         then r\<lparr>status := ''completed'', ended_at := Some now\<rparr>
                         else r) (game_sessions d)\<rparr>,
            [(ToRoom sid, GameFinished now)], Success NoData)"
  unfolding next_round_def assms(1) by (rule next_round_write_finish[OF assms])

text \<open>
  Claim C1, as amended. \<^verbatim>\<open>next-round\<close> on an existing session: when the position after the
  current one is inside the sequence, the stored row gets that position as its round
  index and the label at that position (whose position in the sequence is that index),
  every other column, the status among them, stays as it was, and \<^verbatim>\<open>round-changed\<close> is
  emitted. When the sequence is exhausted, the row gets status \<^verbatim>\<open>'completed'\<close> and the
  end timestamp, label and index stay, and \<^verbatim>\<open>game-finished\<close> is emitted.
\<close>

theorem next_round_contract:
  assumes "findById sid d = Inr (Some s)"
  shows "(currentIndex s + 1 < int (length roundSequence) \<longrightarrow>
            findById sid (fst (next_round sock sid now d)) =
              Inr (Some (s\<lparr>current_round := Some (currentIndex s + 1),
                           game_state := Some (roundSequence ! nat (currentIndex s + 1))\<rparr>)) \<and>
            indexOf roundSequence (roundSequence ! nat (currentIndex s + 1)) = currentIndex s + 1 \<and>
            snd (next_round sock sid now d) =
              ([(ToRoom sid,
                 RoundChanged (currentIndex s + 1) (roundSequence ! nat (currentIndex s + 1)) now)],
               Success NoData)) \<and>
         (int (length roundSequence) \<le> currentIndex s + 1 \<longrightarrow>
            findById sid (fst (next_round sock sid now d)) =
              Inr (Some (s\<lparr>status := ''completed'', ended_at := Some now\<rparr>)) \<and>
            snd (next_round sock sid now d) = ([(ToRoom sid, GameFinished now)], Success NoData))"
proof (intro conjI impI)
  assume a: "currentIndex s + 1 < int (length roundSequence)"
  then have lt: "currentIndex s + 1 < 5" by (simp add: roundSequence_def)
  note adv = next_round_advance[OF assms lt, of sock now]
  show "findById sid (fst (next_round sock sid now d)) =
          Inr (Some (s\<lparr>current_round := Some (currentIndex s + 1),
                       game_state := Some (roundSequence ! nat (currentIndex s + 1))\<rparr>))"
    unfolding adv fst_conv by (rule findById_after_map[OF assms]) simp
  show "indexOf roundSequence (roundSequence ! nat (currentIndex s + 1)) = currentIndex s + 1"
    using currentIndex_bounds[of s] lt by (intro indexOf_nth_roundSequence) auto
  show "snd (next_round sock sid now d) =
          ([(ToRoom sid,
             RoundChanged (currentIndex s + 1) (roundSequence ! nat (currentIndex s + 1)) now)],
           Success NoData)"
    unfolding adv by simp
next
  assume a: "int (length roundSequence) \<le> currentIndex s + 1"
  then have ge: "5 \<le> currentIndex s + 1" by (simp add: roundSequence_def)
  note fin = next_round_finish[OF assms ge, of sock now]
  show "findById sid (fst (next_round sock sid now d)) =
          Inr (Some (s\<lparr>status := ''completed'', ended_at := Some now\<rparr>))"
    unfolding fin fst_conv by (rule findById_after_map[OF assms]) simp
  show "snd (next_round sock sid now d) = ([(ToRoom sid, GameFinished now)], Success NoData)"
    unfolding fin by simp
qed

theorem next_round_contract_witness:
  "findById s1 lobby_db = Inr (Some lobby_session) \<and>
   findById s1 (fst (next_round (sock_of u1 ''ann'') s1 7 lobby_db)) =
     Inr (Some (lobby_session\<lparr>current_round := Some 1, game_state := Some ''synergy''\<rparr>)) \<and>
   findById s1 results_db = Inr (Some results_session) \<and>
   findById s1 (fst (next_round (sock_of u1 ''ann'') s1 7 results_db)) =
     Inr (Some (results_session\<lparr>status := ''completed'', ended_at := Some 7\<rparr>)) \<and>
   snd (next_round (sock_of u1 ''ann'') s1 7 results_db) =
     ([(ToRoom s1, GameFinished 7)], Success NoData)"
proof -
  have a: "findById s1 lobby_db = Inr (Some lobby_session)" by code_simp
  have b: "findById s1 results_db = Inr (Some results_session)" by code_simp
  have ia: "currentIndex lobby_session = 0" by code_simp
  have ib: "currentIndex results_session = 4" by code_simp
  have len: "length roundSequence = 5" and n1: "roundSequence ! Suc 0 = ''synergy''"
    by (simp_all add: roundSequence_def)
  show ?thesis
    using next_round_contract [OF a, of "sock_of u1 ''ann''" 7]
      next_round_contract [OF b, of "sock_of u1 ''ann''" 7] a b
    by (simp add: ia ib len n1)
qed

text \<open>
  The claim as stated fails: advancing a session in status \<^verbatim>\<open>'lobby'\<close> moves the label
  to \<^verbatim>\<open>'synergy'\<close> and leaves the status \<^verbatim>\<open>'lobby'\<close>.
\<close>

theorem next_round_keeps_status_counterexample:
  "findById s1 lobby_db = Inr (Some lobby_session) \<and>
   status lobby_session = ''lobby'' \<and>
   snd (next_round (sock_of u1 ''ann'') s1 7 lobby_db) =
     ([(ToRoom s1, RoundChanged 1 ''synergy'' 7)], Success NoData) \<and>
   map status (game_sessions (fst (next_round (sock_of u1 ''ann'') s1 7 lobby_db))) =
     [''lobby'']"
  by code_simp

text \<open>
  Claim C5, as amended. A missing or empty label is read as \<^verbatim>\<open>'questions'\<close>: the session
  advances to \<^verbatim>\<open>'synergy'\<close> at index 1, as it does from \<^verbatim>\<open>'questions'\<close>. A non-empty
  label outside the sequence has \<^verbatim>\<open>indexOf\<close> \<open>-1\<close>: the session advances to
  \<^verbatim>\<open>'questions'\<close> at index 0.
\<close>

theorem next_round_from_unknown_label:
  assumes "findById sid d = Inr (Some s)"
  shows "(game_state s = None \<or> game_state s = Some [] \<or> game_state s = Some ''questions'' \<longrightarrow>
            findById sid (fst (next_round sock sid now d)) =
              Inr (Some (s\<lparr>current_round := Some 1, game_state := Some ''synergy''\<rparr>)) \<and>
            snd (next_round sock sid now d) =
              ([(ToRoom sid, RoundChanged 1 ''synergy'' now)], Success NoData)) \<and>
         (\<forall>l. game_state s = Some l \<and> l \<noteq> [] \<and> l \<notin> set roundSequence \<longrightarrow>
            findById sid (fst (next_round sock sid now d)) =
              Inr (Some (s\<lparr>current_round := Some 0, game_state := Some ''questions''\<rparr>)) \<and>
            snd (next_round sock sid now d) =
              ([(ToRoom sid, RoundChanged 0 ''questions'' now)], Success NoData))"
proof (intro conjI allI impI)
  assume "game_state s = None \<or> game_state s = Some [] \<or> game_state s = Some ''questions''"
  then have ci: "currentIndex s = 0"
    by (auto simp: currentIndex_def or_default_def indexOf_def roundSequence_def)
  then have lt: "currentIndex s + 1 < 5" by simp
  note adv = next_round_advance[OF assms lt, of sock now]
  show "findById sid (fst (next_round sock sid now d)) =
          Inr (Some (s\<lparr>current_round := Some 1, game_state := Some ''synergy''\<rparr>))"
    using findById_after_map[OF assms,
        of "\<lambda>r. r\<lparr>current_round := Some 1, game_state := Some ''synergy''\<rparr>"]
    by (simp add: adv ci roundSequence_def cong: if_cong)
  show "snd (next_round sock sid now d) =
          ([(ToRoom sid, RoundChanged 1 ''synergy'' now)], Success NoData)"
    by (simp add: adv ci roundSequence_def cong: if_cong)
next
  fix l
  assume a: "game_state s = Some l \<and> l \<noteq> [] \<and> l \<notin> set roundSequence"
  then have ci: "currentIndex s = - 1"
    by (simp add: currentIndex_def or_default_def indexOf_def indexOf_from_absent)
  then have lt: "currentIndex s + 1 < 5" by simp
  note adv = next_round_advance[OF assms lt, of sock now]
  show "findById sid (fst (next_round sock sid now d)) =
          Inr (Some (s\<lparr>current_round := Some 0, game_state := Some ''questions''\<rparr>))"
    using findById_after_map[OF assms,
        of "\<lambda>r. r\<lparr>current_round := Some 0, game_state := Some ''questions''\<rparr>"]
    by (simp add: adv ci roundSequence_def cong: if_cong)
  show "snd (next_round sock sid now d) =
          ([(ToRoom sid, RoundChanged 0 ''questions'' now)], Success NoData)"
    by (simp add: adv ci roundSequence_def cong: if_cong)
qed

theorem next_round_from_unknown_label_witness:
  "findById s1 lobby_db = Inr (Some lobby_session) \<and>
   game_state lobby_session = None \<and>
   snd (next_round (sock_of u1 ''ann'') s1 7 lobby_db) =
     ([(ToRoom s1, RoundChanged 1 ''synergy'' 7)], Success NoData) \<and>
   findById s1 (labelled_db ''warmup'') =
     Inr (Some (lobby_session\<lparr>game_state := Some ''warmup''\<rparr>)) \<and>
   ''warmup'' \<notin> set roundSequence \<and>
   findById s1 (fst (next_round (sock_of u1 ''ann'') s1 7 (labelled_db ''warmup''))) =
     Inr (Some (lobby_session\<lparr>current_round := Some 0, game_state := Some ''questions''\<rparr>))"
proof -
  have a: "findById s1 lobby_db = Inr (Some lobby_session)" by code_simp
  have b: "findById s1 (labelled_db ''warmup'') =
             Inr (Some (lobby_session\<lparr>game_state := Some ''warmup''\<rparr>))"
    by code_simp
  have c: "game_state lobby_session = None" by (simp add: lobby_session_def)
  have w: "''warmup'' \<notin> set roundSequence" by (simp add: roundSequence_def)
  show ?thesis
    using next_round_from_unknown_label [OF a, of "sock_of u1 ''ann''" 7]
      next_round_from_unknown_label [OF b, of "sock_of u1 ''ann''" 7] a b c w
    by simp
qed

text \<open>
  The claim as stated fails: a missing label and an unrecognized one are not treated
  alike. From the unrecognized label \<^verbatim>\<open>'warmup'\<close> the handler lands on \<^verbatim>\<open>'questions'\<close> at
  index 0; from a missing label, as from \<^verbatim>\<open>'questions'\<close>, it lands on \<^verbatim>\<open>'synergy'\<close> at
  index 1.
\<close>

theorem unknown_label_is_before_start_counterexample:
  "''warmup'' \<notin> set roundSequence \<and>
   snd (next_round (sock_of u1 ''ann'') s1 7 (labelled_db ''warmup'')) =
     ([(ToRoom s1, RoundChanged 0 ''questions'' 7)], Success NoData) \<and>
   snd (next_round (sock_of u1 ''ann'') s1 7 (labelled_db ''questions'')) =
     ([(ToRoom s1, RoundChanged 1 ''synergy'' 7)], Success NoData) \<and>
   game_state lobby_session = None \<and>
   snd (next_round (sock_of u1 ''ann'') s1 7 lobby_db) =
     ([(ToRoom s1, RoundChanged 1 ''synergy'' 7)], Success NoData)"
  by code_simp

section \<open>Two calls of next-round at once\<close>




section \<open>Submitting a response over the real-time channel\<close>

text \<open>
  The insert of \<^verbatim>\<open>submit-response\<close> succeeds exactly when the store is reachable, every
  parameter is a value of its column, no stored row has the key, the new row id is fresh
  and both referenced rows exist.
\<close>

lemma submit_response_emits:
  "fst (snd (submit_response sock sid roundNumber roundType txt new_id now d)) =
     (if online d \<and>
         uuid_in sid \<noteq> None \<and> uuid_in (userId sock) \<noteq> None \<and> int4_in roundNumber \<and>
         varchar_in 50 roundType \<and> text_in txt \<and>
         find (\<lambda>r. game_session_id r = canonical sid \<and> user_id r = canonical (userId sock) \<and>
                    round_number r = roundNumber) (round_responses d) = None \<and>
         new_id \<notin> set (map rr_id (round_responses d)) \<and>
         canonical sid \<in> set (map gs_id (game_sessions d)) \<and>
         canonical (userId sock) \<in> set (map users_id (users d))
      then [(ToRoom sid, ResponseSubmitted (userId sock) (username sock) roundNumber)]
      else [])"
proof -
  let ?row = "\<lparr> rr_id = new_id, game_session_id = sid, user_id = userId sock,
                round_number = roundNumber, round_type = Some roundType,
                response_text = Some txt, response_data = None,
                raw_score = Some 10, submitted_at = now \<rparr>"
  have k: "same_key (as_stored ?row) =
             (\<lambda>r. game_session_id r = canonical sid \<and> user_id r = canonical (userId sock) \<and>
                  round_number r = roundNumber)"
    by (auto simp: same_key_def as_stored_def fun_eq_iff)
  have v: "row_values_ok ?row \<longleftrightarrow>
             uuid_in sid \<noteq> None \<and> uuid_in (userId sock) \<noteq> None \<and> int4_in roundNumber \<and>
             varchar_in 50 roundType \<and> text_in txt"
    by (simp add: row_values_ok_def int4_in_def)
  have f: "game_session_id (as_stored ?row) = canonical sid"
          "user_id (as_stored ?row) = canonical (userId sock)"
    by (simp_all add: as_stored_def)
  show ?thesis
    by (cases "find (\<lambda>r. game_session_id r = canonical sid \<and>
                         user_id r = canonical (userId sock) \<and>
                         round_number r = roundNumber) (round_responses d)")
       (simp_all add: submit_response_def insert_round_response_def k v f insert_syntax_ok_def)
qed

text \<open>
  Claim C8, as amended. The one event \<^verbatim>\<open>submit-response\<close> emits carries the submitter's
  user id, username and the round number, and nothing of the response. Whether it is
  emitted depends on the response text in one way only: a text the \<^verbatim>\<open>TEXT\<close> column
  refuses makes the insert fail, and then nothing is emitted. Two submissions that
  differ only in a text the column accepts, or only in a text it refuses, emit the same
  events.
\<close>

theorem submit_response_broadcast_hides_content:
  "(text_in text1 = text_in text2 \<longrightarrow>
      fst (snd (submit_response sock sid roundNumber roundType text1 new_id now d)) =
      fst (snd (submit_response sock sid roundNumber roundType text2 new_id now d))) \<and>
   (\<not> text_in text1 \<longrightarrow>
      fst (snd (submit_response sock sid roundNumber roundType text1 new_id now d)) = []) \<and>
   (fst (snd (submit_response sock sid roundNumber roundType text1 new_id now d)) = [] \<or>
    fst (snd (submit_response sock sid roundNumber roundType text1 new_id now d)) =
      [(ToRoom sid, ResponseSubmitted (userId sock) (username sock) roundNumber)])"
  by (simp add: submit_response_emits)

theorem submit_response_broadcast_hides_content_witness:
  "text_in ''first'' = text_in ''second'' \<and>
   fst (snd (submit_response (sock_of u1 ''ann'') s1 1 ''questions'' ''first'' x1 5 lobby_db)) =
     [(ToRoom s1, ResponseSubmitted u1 ''ann'' 1)] \<and>
   fst (snd (submit_response (sock_of u1 ''ann'') s1 1 ''questions'' ''second'' x1 5 lobby_db)) =
     [(ToRoom s1, ResponseSubmitted u1 ''ann'' 1)] \<and>
   \<not> text_in [CHR ''a'', CHR 0x00] \<and>
   fst (snd (submit_response (sock_of u1 ''ann'') s1 1 ''questions'' [CHR ''a'', CHR 0x00] x1 5
               lobby_db)) = []"
proof -
  have t: "text_in ''first'' = text_in ''second''" by code_simp
  have n: "\<not> text_in [CHR ''a'', CHR 0x00]" by code_simp
  have e: "fst (snd (submit_response (sock_of u1 ''ann'') s1 1 ''questions'' ''second'' x1 5
                       lobby_db)) = [(ToRoom s1, ResponseSubmitted u1 ''ann'' 1)]"
    by code_simp
  show ?thesis
    using submit_response_broadcast_hides_content
            [of "''first''" "''second''" "sock_of u1 ''ann''" s1 1 "''questions''" x1 5 lobby_db]
          submit_response_broadcast_hides_content
            [of "[CHR ''a'', CHR 0x00]" "''second''" "sock_of u1 ''ann''" s1 1 "''questions''"
                x1 5 lobby_db]
          t n e
    by simp
qed

text \<open>
  The claim as stated fails: two submissions that differ only in the response text, one
  of them holding the character NUL, which a \<^verbatim>\<open>TEXT\<close> column cannot store. The first is
  broadcast, the second is not.
\<close>

theorem refused_text_is_not_broadcast_counterexample:
  "submit_response (sock_of u1 ''ann'') s1 1 ''questions'' ''a'' x1 5 lobby_db =
     (lobby_db\<lparr>round_responses :=
        [\<lparr>rr_id = x1, game_session_id = s1, user_id = u1, round_number = 1,
          round_type = Some ''questions'', response_text = Some ''a'', response_data = None,
          raw_score = Some 10, submitted_at = 5\<rparr>]\<rparr>,
      [(ToRoom s1, ResponseSubmitted u1 ''ann'' 1)],
      Success (ResponseData
        \<lparr>rr_id = x1, game_session_id = s1, user_id = u1, round_number = 1,
         round_type = Some ''questions'', response_text = Some ''a'', response_data = None,
         raw_score = Some 10, submitted_at = 5\<rparr>)) \<and>
   submit_response (sock_of u1 ''ann'') s1 1 ''questions'' [CHR ''a'', CHR 0x00] x1 5 lobby_db =
     (lobby_db, [], Failure ''Failed to submit response'')"
  by code_simp

text \<open>
  Claim C2 at its failing input. Over the real-time channel the second submission for a
  key is refused by the unique constraint: the acknowledgment is a failure and the one
  stored row keeps the first text. Over REST the statement has \<^verbatim>\<open>RETURNING\<close> before
  \<^verbatim>\<open>ON CONFLICT\<close>: the store rejects it and no row is stored, not even the first.
\<close>

theorem resubmission_keeps_first_text:
  "map response_text
     (round_responses
        (fst (submit_response (sock_of u1 ''ann'') s1 1 ''questions'' ''first'' x1 5
                lobby_db))) = [Some ''first''] \<and>
   snd (submit_response (sock_of u1 ''ann'') s1 1 ''questions'' ''second'' x2 6
          (fst (submit_response (sock_of u1 ''ann'') s1 1 ''questions'' ''first'' x1 5
                  lobby_db))) = ([], Failure ''Failed to submit response'') \<and>
   map response_text
     (round_responses
        (fst (submit_response (sock_of u1 ''ann'') s1 1 ''questions'' ''second'' x2 6
                (fst (submit_response (sock_of u1 ''ann'') s1 1 ''questions'' ''first''
                        x1 5 lobby_db))))) = [Some ''first''] \<and>
   u1 \<in> set (participant_ids lobby_session) \<and>
   post_response (\<lambda>x. True) u1 s1
     \<lparr>body_roundNumber = 1, body_roundType = ''questions'',
      body_responseText = Some ''first'', body_responseData = None\<rparr> x1 5 lobby_db =
     (lobby_db, Inl (Thrown SyntaxError))"
  by code_simp

text \<open>
  Claim C4 at its failing input. The \<^verbatim>\<open>submit-response\<close> handler reads neither the session
  nor its participants: a user outside the participant list gets a row stored, the
  broadcast sent and a success acknowledgment.
\<close>

theorem non_participant_submission_is_stored:
  "findById s1 lobby_db = Inr (Some lobby_session) \<and>
   u3 \<notin> set (participant_ids lobby_session) \<and>
   submit_response (sock_of u3 ''cy'') s1 1 ''questions'' ''hi'' x1 5 lobby_db =
     (lobby_db\<lparr>round_responses :=
        [\<lparr>rr_id = x1, game_session_id = s1, user_id = u3, round_number = 1,
          round_type = Some ''questions'', response_text = Some ''hi'', response_data = None,
          raw_score = Some 10, submitted_at = 5\<rparr>]\<rparr>,
      [(ToRoom s1, ResponseSubmitted u3 ''cy'' 1)],
      Success (ResponseData
        \<lparr>rr_id = x1, game_session_id = s1, user_id = u3, round_number = 1,
         round_type = Some ''questions'', response_text = Some ''hi'', response_data = None,
         raw_score = Some 10, submitted_at = 5\<rparr>))"
  by code_simp

section \<open>The paths that check membership\<close>

text \<open>
  The REST route for responses rejects a missing session with 404 and a user outside the
  participant list with 403, and leaves the store as it was.
\<close>

theorem post_response_rejects_non_participant:
  assumes "isUUID sid" and "1 \<le> body_roundNumber b"
  shows "(findById sid d = Inr None \<longrightarrow>
            post_response isUUID uid sid b new_id now d =
              (d, Inl (ApiError 404 ''Game session not found''))) \<and>
         (\<forall>s. findById sid d = Inr (Some s) \<and> uid \<notin> set (participant_ids s) \<longrightarrow>
            post_response isUUID uid sid b new_id now d =
              (d, Inl (ApiError 403 ''You are not participating in this session'')))"
  using assms by (simp add: post_response_def NotFound_def Forbidden_def)

theorem post_response_rejects_non_participant_witness:
  "findById s1 lobby_db = Inr (Some lobby_session) \<and>
   u3 \<notin> set (participant_ids lobby_session) \<and>
   post_response (\<lambda>x. True) u3 s1
     \<lparr>body_roundNumber = 1, body_roundType = ''questions'',
      body_responseText = Some ''hi'', body_responseData = None\<rparr> x1 5 lobby_db =
     (lobby_db, Inl (ApiError 403 ''You are not participating in this session'')) \<and>
   findById s9 lobby_db = Inr None \<and>
   post_response (\<lambda>x. True) u3 s9
     \<lparr>body_roundNumber = 1, body_roundType = ''questions'',
      body_responseText = Some ''hi'', body_responseData = None\<rparr> x1 5 lobby_db =
     (lobby_db, Inl (ApiError 404 ''Game session not found''))"
proof -
  let ?b = "\<lparr>body_roundNumber = 1, body_roundType = ''questions'',
             body_responseText = Some ''hi'', body_responseData = None\<rparr>"
  have n: "1 \<le> body_roundNumber ?b" by simp
  have f1: "findById s1 lobby_db = Inr (Some lobby_session)" by code_simp
  have f9: "findById s9 lobby_db = Inr None" by code_simp
  have np: "u3 \<notin> set (participant_ids lobby_session)" by code_simp
  from post_response_rejects_non_participant
         [of "\<lambda>x. True" s1 ?b lobby_db u3 x1 5, OF TrueI n]
       post_response_rejects_non_participant
         [of "\<lambda>x. True" s9 ?b lobby_db u3 x1 5, OF TrueI n]
       f1 f9 np
  show ?thesis by blast
qed

text \<open>
  \<^verbatim>\<open>join-session\<close> rejects a missing session and a user outside the participant list: the
  connection joins no room, nothing is emitted.
\<close>

theorem join_session_rejects_non_participant:
  "(findById sid d = Inr None \<longrightarrow>
      join_session sock sid d = (sock, [], Failure ''Session not found'')) \<and>
   (\<forall>s. findById sid d = Inr (Some s) \<and> userId sock \<notin> set (participant_ids s) \<longrightarrow>
      join_session sock sid d = (sock, [], Failure ''Not a participant in this session''))"
  by (simp add: join_session_def)

theorem join_session_rejects_non_participant_witness:
  "findById s1 lobby_db = Inr (Some lobby_session) \<and>
   userId (sock_of u3 ''cy'') \<notin> set (participant_ids lobby_session) \<and>
   join_session (sock_of u3 ''cy'') s1 lobby_db =
     (sock_of u3 ''cy'', [], Failure ''Not a participant in this session'') \<and>
   findById s9 lobby_db = Inr None \<and>
   join_session (sock_of u3 ''cy'') s9 lobby_db =
     (sock_of u3 ''cy'', [], Failure ''Session not found'')"
proof -
  have f1: "findById s1 lobby_db = Inr (Some lobby_session)" by code_simp
  have f9: "findById s9 lobby_db = Inr None" by code_simp
  have np: "userId (sock_of u3 ''cy'') \<notin> set (participant_ids lobby_session)" by code_simp
  from join_session_rejects_non_participant [of s1 lobby_db "sock_of u3 ''cy''"]
       join_session_rejects_non_participant [of s9 lobby_db "sock_of u3 ''cy''"]
       f1 f9 np
  show ?thesis by blast
qed

text \<open>
  The REST route for responses stores nothing, whoever calls it: every request that
  passes the checks reaches the statement the store rejects.
\<close>

theorem post_response_never_stores:
  "fst (post_response isUUID uid sid b new_id now d) = d \<and>
   (\<exists>e. snd (post_response isUUID uid sid b new_id now d) = Inl e)"
  by (simp add: post_response_def insert_round_response_def insert_syntax_ok_def
        split: option.splits sum.splits)

section \<open>Updating a session\<close>







section \<open>The session leaderboard\<close>












text \<open>
  The REST route for the leaderboard passes no limit: it returns what \<^verbatim>\<open>getLeaderboard\<close>
  returns for the limit 10, at most 10 entries, with their count.
\<close>

theorem get_leaderboard_route_limit:
  "get_leaderboard_route isUUID tie sid d = Inr (lb, n) \<Longrightarrow>
     getLeaderboard tie sid 10 d = Inr lb \<and> length lb \<le> 10 \<and> n = length lb"
  by (auto simp: get_leaderboard_route_def getLeaderboard_def
           split: if_splits sum.splits option.splits)

theorem get_leaderboard_route_limit_witness:
  "get_leaderboard_route (\<lambda>x. True) listed_order s1 scored_db =
     Inr ([\<lparr>entry_id = u2, entry_username = ''bo'', entry_avatar = None,
             score = 50, rank = ''1'', roundsCompleted = ''1''\<rparr>,
           \<lparr>entry_id = u1, entry_username = ''ann'', entry_avatar = None,
             score = 30, rank = ''2'', roundsCompleted = ''1''\<rparr>,
           \<lparr>entry_id = u3, entry_username = ''cy'', entry_avatar = None,
             score = 10, rank = ''3'', roundsCompleted = ''1''\<rparr>], 3) \<and>
   (3::nat) \<le> 10"
proof -
  have ev: "get_leaderboard_route (\<lambda>x. True) listed_order s1 scored_db =
     Inr ([\<lparr>entry_id = u2, entry_username = ''bo'', entry_avatar = None,
             score = 50, rank = ''1'', roundsCompleted = ''1''\<rparr>,
           \<lparr>entry_id = u1, entry_username = ''ann'', entry_avatar = None,
             score = 30, rank = ''2'', roundsCompleted = ''1''\<rparr>,
           \<lparr>entry_id = u3, entry_username = ''cy'', entry_avatar = None,
             score = 10, rank = ''3'', roundsCompleted = ''1''\<rparr>], 3)"
    by code_simp
  from get_leaderboard_route_limit [OF ev] ev show ?thesis by simp
qed

section \<open>The round invariant under the operations\<close>















end
